theory Spec2Isabelle
  imports Complex_Main "HOL-Library.AList" "HOL-Library.Sublist"
begin

section \<open>The CDDP solver context (\<^verbatim>\<open>src/cddp_core/cddp_core.cpp\<close>)\<close>

text \<open>
  The theory embeds the solver context class \<^verbatim>\<open>cddp::CDDP\<close>: its constructor and
  setters, the constraint store, the solver registry and factory, \<^verbatim>\<open>solve\<close>,
  \<^verbatim>\<open>initializeProblemIfNecessary\<close> and the regularization controller.

  Conventions of the embedding.
  \<^item> A \<^verbatim>\<open>double\<close> is a \<^typ>\<open>real\<close>: arithmetic is exact, as in section 3 of the
    specification (rounding, overflow and NaN are outside the model). The five members
    that the code sets to \<^verbatim>\<open>std::numeric_limits<double>::infinity()\<close> have the type
    \<open>ext_double\<close> below.
  \<^item> An \<^verbatim>\<open>int\<close> is an \<^typ>\<open>int\<close>; the model is exact for values whose successor
    fits into the machine type.
  \<^item> An \<^verbatim>\<open>Eigen::VectorXd\<close> is a \<^typ>\<open>real list\<close>, a \<^verbatim>\<open>std::vector\<close> a list, a
    \<^verbatim>\<open>std::unique_ptr\<close> an \<^typ>\<open>'a option\<close> (\<open>None\<close> is the null pointer).
  \<^item> A member function is a function from the object's state to its new state. A
    function that can throw returns a sum: \<open>Inl (e, s)\<close> is the exception \<open>e\<close>
    together with the state the object is left in, \<open>Inr\<close> is normal return.
  \<^item> The classes declared in headers that are not part of the sources at hand
    (\<^verbatim>\<open>DynamicalSystem\<close>, \<^verbatim>\<open>Objective\<close>, \<^verbatim>\<open>Constraint\<close>, \<^verbatim>\<open>CDDPOptions\<close>,
    \<^verbatim>\<open>ISolverAlgorithm\<close> and the six solver strategies) appear through the members
    this file uses, or as parameters.
  \<^item> Output written to \<^verbatim>\<open>std::cout\<close> under \<^verbatim>\<open>options.verbose\<close> is not modelled; the
    warning of \<^verbatim>\<open>setInitialTrajectory\<close> on \<^verbatim>\<open>std::cerr\<close> is returned by its model.
\<close>

subsection \<open>Scalars, vectors and exceptions\<close>

type_synonym vector = "real list"

datatype ext_double = Finite real | Infinity


text \<open>
  \<^verbatim>\<open>std::min(a, b)\<close> is \<^verbatim>\<open>(b < a) ? b : a\<close> and \<^verbatim>\<open>std::max(a, b)\<close> is
  \<^verbatim>\<open>(a < b) ? b : a\<close>.
\<close>

definition std_min :: "real \<Rightarrow> real \<Rightarrow> real" where
  "std_min a b = (if b < a then b else a)"

definition std_max :: "real \<Rightarrow> real \<Rightarrow> real" where
  "std_max a b = (if a < b then b else a)"

datatype error =
    RuntimeError string      \<comment> \<open>\<^verbatim>\<open>throw std::runtime_error(msg)\<close>\<close>
  | LengthError              \<comment> \<open>\<^verbatim>\<open>std::vector::resize\<close> with a negative \<^verbatim>\<open>int\<close> converted to \<^verbatim>\<open>size_t\<close>\<close>
  | OutOfBounds              \<comment> \<open>\<^verbatim>\<open>operator[]\<close> beyond the end of a \<^verbatim>\<open>std::vector\<close> (undefined behaviour)\<close>
  | EigenNegativeSize        \<comment> \<open>\<^verbatim>\<open>Eigen::VectorXd::Zero(n)\<close> with \<^verbatim>\<open>n < 0\<close>\<close>

text \<open>\<^verbatim>\<open>Eigen::VectorXd::Zero(n)\<close> for \<^verbatim>\<open>n >= 0\<close>.\<close>

definition Zero :: "int \<Rightarrow> vector" where
  "Zero n = replicate (nat n) 0"

text \<open>
  \<^verbatim>\<open>v.isZero()\<close>: every coefficient is at most Eigen's \<^verbatim>\<open>dummy_precision\<close>
  (\<^verbatim>\<open>1e-12\<close> for \<^verbatim>\<open>double\<close>) in absolute value.
\<close>

definition isZero :: "vector \<Rightarrow> bool" where
  "isZero v = list_all (\<lambda>x. \<bar>x\<bar> \<le> 1 / 10 ^ 12) v"

text \<open>
  \<^verbatim>\<open>v.resize(n)\<close> on a \<^verbatim>\<open>std::vector<Eigen::VectorXd>\<close> for \<^verbatim>\<open>n >= 0\<close>: the vector is cut
  or filled up with default-constructed (empty) vectors.
\<close>

definition resize :: "int \<Rightarrow> vector list \<Rightarrow> vector list" where
  "resize n xs = take (nat n) xs @ replicate (nat n - length xs) []"

subsection \<open>Options, collaborators and the state of the context\<close>

record line_search_options =
  max_iterations :: int
  initial_step_size :: real
  min_step_size :: real
  step_reduction_factor :: real

record regularization_options =
  initial_value :: real
  update_factor :: real
  max_value :: real
  min_value :: real

record cddp_options =
  tolerance :: real
  warm_start :: bool
  verbose :: bool
  line_search :: line_search_options
  regularization :: regularization_options

record dynamical_system =
  getStateDim :: int
  getControlDim :: int

record constraint =
  getDualDim :: int

text \<open>
  The strategies that \<^verbatim>\<open>createSolver\<close> can build; \<open>External a\<close> is an algorithm
  object made by a registered factory.
\<close>

datatype 'a algorithm =
    CLDDPSolver | ASDDPSolver | LogDDPSolver | IPDDPSolver | MSIPDDPSolver | AlddpSolver
  | External 'a

text \<open>
  A \<^verbatim>\<open>std::map\<close> with string keys that the code sums over is an association list with
  distinct keys (\<open>AList.update\<close> replaces the value of a key that is present).
\<close>

type_synonym constraint_set = "(string \<times> constraint) list"

record ('o, 'a) cddp =
  initial_state :: vector
  reference_state :: vector
  reference_states :: "vector list"
  horizon :: int
  timestep :: real
  system :: "dynamical_system option"
  objective :: "'o option"
  options :: cddp_options
  initialized :: bool
  cost :: ext_double
  merit_function :: ext_double
  inf_pr :: ext_double
  inf_du :: ext_double
  inf_comp :: ext_double
  alpha_pr :: real
  alpha_du :: real
  regularization_value :: real
  terminal_regularization :: real
  total_dual_dim :: int
  alphas :: "real list"
  X_traj :: "vector list"
  U_traj :: "vector list"
  path_constraint_set :: constraint_set
  terminal_constraint_set :: constraint_set
  solver :: "'a algorithm option"

subsection \<open>The step-size ladder\<close>

text \<open>
  The loop that the constructor and \<^verbatim>\<open>setOptions\<close> both run:
  \<^verbatim>\<open>for (int i = 0; i < max_iterations; ++i) { alphas_.push_back(current_alpha);
  current_alpha *= step_reduction_factor;
  if (current_alpha < min_step_size && i < max_iterations - 1)
  { alphas_.push_back(min_step_size); break; } }\<close>
\<close>

function alphas_loop :: "line_search_options \<Rightarrow> int \<Rightarrow> real \<Rightarrow> real list \<Rightarrow> real list" where
  "alphas_loop ls i current_alpha acc =
     (if i < max_iterations ls then
        (let acc1 = acc @ [current_alpha];
             current1 = current_alpha * step_reduction_factor ls
         in if current1 < min_step_size ls \<and> i < max_iterations ls - 1
            then acc1 @ [min_step_size ls]
            else alphas_loop ls (i + 1) current1 acc1)
      else acc)"
  by pat_completeness auto
termination
  by (relation "measure (\<lambda>(ls, i, c, acc). nat (max_iterations ls - i))") auto

declare alphas_loop.simps [simp del]

definition build_alphas :: "line_search_options \<Rightarrow> real list" where
  "build_alphas ls =
     (let a = alphas_loop ls 0 (initial_step_size ls) []
      in if a = [] then [initial_step_size ls] else a)"


subsection \<open>Constructor and setters\<close>

text \<open>
  The constructor. \<open>setRef\<close> is \<^verbatim>\<open>Objective::setReferenceState\<close>, which belongs to a
  class declared elsewhere. In the member initialisers \<^verbatim>\<open>regularization_\<close> is called
  \<open>regularization_value\<close> here, since \<open>regularization\<close> is the group of options.
\<close>

definition CDDP ::
  "(vector \<Rightarrow> 'o \<Rightarrow> 'o) \<Rightarrow> vector \<Rightarrow> vector \<Rightarrow> int \<Rightarrow> real \<Rightarrow>
   dynamical_system option \<Rightarrow> 'o option \<Rightarrow> cddp_options \<Rightarrow> ('o, 'a) cddp" where
  "CDDP setRef initial_state0 reference_state0 horizon0 timestep0 system0 objective0 options0 =
     \<lparr> initial_state = initial_state0,
       reference_state = reference_state0,
       reference_states = [],
       horizon = horizon0,
       timestep = timestep0,
       system = system0,
       objective =
         (case objective0 of
            None \<Rightarrow> None
          | Some ob \<Rightarrow>
              if \<not> isZero reference_state0 \<and> 0 < length reference_state0
              then Some (setRef reference_state0 ob) else Some ob),
       options = options0,
       initialized = False,
       cost = Finite 0,
       merit_function = Finite 0,
       inf_pr = Finite 0,
       inf_du = Finite 0,
       inf_comp = Finite 0,
       alpha_pr = initial_step_size (line_search options0),
       alpha_du = 0,
       regularization_value = initial_value (regularization options0),
       terminal_regularization = initial_value (regularization options0),
       total_dual_dim = 0,
       alphas = build_alphas (line_search options0),
       X_traj = [],
       U_traj = [],
       path_constraint_set = [],
       terminal_constraint_set = [],
       solver = None \<rparr>"

definition setDynamicalSystem ::
  "dynamical_system option \<Rightarrow> ('o, 'a) cddp \<Rightarrow> ('o, 'a) cddp" where
  "setDynamicalSystem sys s = s\<lparr>system := sys, initialized := False\<rparr>"

definition setInitialState :: "vector \<Rightarrow> ('o, 'a) cddp \<Rightarrow> ('o, 'a) cddp" where
  "setInitialState x0 s =
     (let s1 = s\<lparr>initial_state := x0\<rparr>
      in if X_traj s1 = [] \<or> length (hd (X_traj s1)) \<noteq> length x0 then s1
         else s1\<lparr>X_traj := (X_traj s1)[0 := x0]\<rparr>)"

definition setHorizon :: "int \<Rightarrow> ('o, 'a) cddp \<Rightarrow> ('o, 'a) cddp" where
  "setHorizon h s = s\<lparr>horizon := h, initialized := False\<rparr>"

definition setTimestep :: "real \<Rightarrow> ('o, 'a) cddp \<Rightarrow> ('o, 'a) cddp" where
  "setTimestep dt s = s\<lparr>timestep := dt\<rparr>"



text \<open>
  \<^verbatim>\<open>setInitialTrajectory\<close> returns what it wrote to \<^verbatim>\<open>std::cerr\<close> and the new state.
  The sizes are compared as \<^verbatim>\<open>size_t\<close>; a negative \<^verbatim>\<open>horizon_ + 1\<close> or \<^verbatim>\<open>horizon_\<close>
  converts to a value beyond every vector length, so the comparison on \<^typ>\<open>int\<close>
  agrees with it.
\<close>

definition trajectory_warning :: string where
  "trajectory_warning = ''Warning: Provided initial trajectory dimensions do not match horizon.''"

definition setInitialTrajectory ::
  "vector list \<Rightarrow> vector list \<Rightarrow> ('o, 'a) cddp \<Rightarrow> string list \<times> ('o, 'a) cddp" where
  "setInitialTrajectory X U s =
     (let cerr = (if int (length X) \<noteq> horizon s + 1 \<or> int (length U) \<noteq> horizon s
                  then [trajectory_warning] else []);
          s1 = s\<lparr>X_traj := X, U_traj := U\<rparr>;
          s2 = (if X_traj s1 \<noteq> [] then s1\<lparr>initial_state := hd (X_traj s1)\<rparr> else s1)
      in (cerr, s2))"

definition getTotalDualDim :: "('o, 'a) cddp \<Rightarrow> int" where
  "getTotalDualDim s = total_dual_dim s"

subsection \<open>The constraint store\<close>

definition addPathConstraint ::
  "string \<Rightarrow> constraint option \<Rightarrow> ('o, 'a) cddp \<Rightarrow> (error \<times> ('o, 'a) cddp) + ('o, 'a) cddp" where
  "addPathConstraint constraint_name c s =
     (case c of
        None \<Rightarrow> Inl (RuntimeError ''Cannot add null constraint.'', s)
      | Some con \<Rightarrow>
          (let dual_dim = getDualDim con
           in Inr (s\<lparr>path_constraint_set := AList.update constraint_name con (path_constraint_set s),
                      total_dual_dim := total_dual_dim s + dual_dim,
                      initialized := False\<rparr>)))"

definition removePathConstraint :: "string \<Rightarrow> ('o, 'a) cddp \<Rightarrow> bool \<times> ('o, 'a) cddp" where
  "removePathConstraint constraint_name s =
     (case map_of (path_constraint_set s) constraint_name of
        Some con \<Rightarrow>
          (True, s\<lparr>total_dual_dim := total_dual_dim s - getDualDim con,
                   path_constraint_set := AList.delete constraint_name (path_constraint_set s),
                   initialized := False\<rparr>)
      | None \<Rightarrow> (False, s))"

definition addTerminalConstraint ::
  "string \<Rightarrow> constraint option \<Rightarrow> ('o, 'a) cddp \<Rightarrow> (error \<times> ('o, 'a) cddp) + ('o, 'a) cddp" where
  "addTerminalConstraint constraint_name c s =
     (case c of
        None \<Rightarrow> Inl (RuntimeError ''Cannot add null constraint.'', s)
      | Some con \<Rightarrow>
          (let dual_dim = getDualDim con
           in Inr (s\<lparr>terminal_constraint_set :=
                        AList.update constraint_name con (terminal_constraint_set s),
                      total_dual_dim := total_dual_dim s + dual_dim,
                      initialized := False\<rparr>)))"

definition removeTerminalConstraint :: "string \<Rightarrow> ('o, 'a) cddp \<Rightarrow> bool \<times> ('o, 'a) cddp" where
  "removeTerminalConstraint constraint_name s =
     (case map_of (terminal_constraint_set s) constraint_name of
        Some con \<Rightarrow>
          (True, s\<lparr>total_dual_dim := total_dual_dim s - getDualDim con,
                   terminal_constraint_set :=
                     AList.delete constraint_name (terminal_constraint_set s),
                   initialized := False\<rparr>)
      | None \<Rightarrow> (False, s))"

text \<open>The sum of the dual dimensions of the constraints held in both sets.\<close>

definition held_dual_dim :: "('o, 'a) cddp \<Rightarrow> int" where
  "held_dual_dim s =
     sum_list (map (\<lambda>(n, c). getDualDim c) (path_constraint_set s)) +
     sum_list (map (\<lambda>(n, c). getDualDim c) (terminal_constraint_set s))"

subsection \<open>The solver registry and the factory\<close>

text \<open>
  \<^verbatim>\<open>external_solver_registry_\<close> is a static \<^verbatim>\<open>std::map\<close> from names to factories; it is
  passed to the functions that read it and returned by the one that writes it. A
  factory is a callable \<^verbatim>\<open>std::function\<close> without arguments that returns a (possibly
  null) algorithm pointer.
\<close>

type_synonym 'a factory = "unit \<Rightarrow> 'a algorithm option"

type_synonym 'a registry = "string \<rightharpoonup> 'a factory"

definition registerSolver :: "string \<Rightarrow> 'a factory \<Rightarrow> 'a registry \<Rightarrow> 'a registry" where
  "registerSolver solver_name factory reg = reg(solver_name \<mapsto> factory)"

definition isSolverRegistered :: "string \<Rightarrow> 'a registry \<Rightarrow> bool" where
  "isSolverRegistered solver_name reg = (reg solver_name \<noteq> None)"

definition createSolver :: "'a registry \<Rightarrow> string \<Rightarrow> 'a algorithm option" where
  "createSolver reg solver_type =
     (case reg solver_type of
        Some factory \<Rightarrow> factory ()
      | None \<Rightarrow>
          if solver_type = ''CLCDDP'' \<or> solver_type = ''CLDDP'' then Some CLDDPSolver
          else if solver_type = ''ASDDP'' then Some ASDDPSolver
          else if solver_type = ''LogDDP'' \<or> solver_type = ''LOGDDP'' then Some LogDDPSolver
          else if solver_type = ''IPDDP'' then Some IPDDPSolver
          else if solver_type = ''MSIPDDP'' then Some MSIPDDPSolver
          else if solver_type = ''ALDDP'' then Some AlddpSolver
          else None)"

text \<open>The names that the built-in branch of \<^verbatim>\<open>createSolver\<close> compares with.\<close>

definition builtin_names :: "string list" where
  "builtin_names =
     [''CLCDDP'', ''CLDDP'', ''ASDDP'', ''LogDDP'', ''LOGDDP'', ''IPDDP'', ''MSIPDDP'', ''ALDDP'']"

datatype SolverType = CLDDP | ASDDP | LogDDP | IPDDP | MSIPDDP | ALDDP

fun solverTypeToString :: "SolverType \<Rightarrow> string" where
  "solverTypeToString CLDDP = ''CLDDP''"
| "solverTypeToString ASDDP = ''ASDDP''"
| "solverTypeToString LogDDP = ''LogDDP''"
| "solverTypeToString IPDDP = ''IPDDP''"
| "solverTypeToString MSIPDDP = ''MSIPDDP''"
| "solverTypeToString ALDDP = ''ALDDP''"

subsection \<open>Initialisation\<close>

text \<open>The loop \<^verbatim>\<open>for (k = 0; k < n; ++k) v[k] = Eigen::VectorXd::Zero(d)\<close>.\<close>

fun zero_fill :: "nat \<Rightarrow> int \<Rightarrow> vector list \<Rightarrow> vector list" where
  "zero_fill 0 d v = v"
| "zero_fill (Suc k) d v = (zero_fill k d v)[k := Zero d]"

text \<open>
  A cold start of one trajectory: \<^verbatim>\<open>v.clear(); v.resize(n);\<close> and the loop above. The
  result is the new vector, or the exception and the vector as it is when thrown.
\<close>

definition cold_start :: "int \<Rightarrow> int \<Rightarrow> error \<times> vector list + vector list" where
  "cold_start n d =
     (if n < 0 then Inl (LengthError, [])
      else if 0 < n \<and> d < 0 then Inl (EigenNegativeSize, resize n [])
      else Inr (zero_fill (nat n) d (resize n [])))"

text \<open>The branch of a warm start: \<^verbatim>\<open>v.resize(n)\<close> alone.\<close>

definition warm_resize :: "int \<Rightarrow> vector list \<Rightarrow> error \<times> vector list + vector list" where
  "warm_resize n v = (if n < 0 then Inl (LengthError, v) else Inr (resize n v))"

definition preserve_trajectories :: "dynamical_system \<Rightarrow> ('o, 'a) cddp \<Rightarrow> bool" where
  "preserve_trajectories sys s =
     (warm_start (options s) \<and> X_traj s \<noteq> [] \<and> U_traj s \<noteq> [] \<and>
      int (length (X_traj s)) = horizon s + 1 \<and>
      int (length (U_traj s)) = horizon s \<and>
      int (length (hd (X_traj s))) = getStateDim sys \<and>
      int (length (hd (U_traj s))) = getControlDim sys)"

text \<open>The block \<^verbatim>\<open>// Initialize state trajectory\<close>.\<close>

definition initialize_X ::
  "bool \<Rightarrow> int \<Rightarrow> ('o, 'a) cddp \<Rightarrow> (error \<times> ('o, 'a) cddp) + ('o, 'a) cddp" where
  "initialize_X preserve state_dim s =
     (if X_traj s = [] \<or> int (length (X_traj s)) \<noteq> horizon s + 1 then
        (case (if preserve then warm_resize (horizon s + 1) (X_traj s)
               else cold_start (horizon s + 1) state_dim) of
           Inl (e, v) \<Rightarrow> Inl (e, s\<lparr>X_traj := v\<rparr>)
         | Inr v \<Rightarrow> Inr (s\<lparr>X_traj := v\<rparr>))
      else Inr s)"

text \<open>The block \<^verbatim>\<open>// Initialize control trajectory\<close>.\<close>

definition initialize_U ::
  "bool \<Rightarrow> int \<Rightarrow> ('o, 'a) cddp \<Rightarrow> (error \<times> ('o, 'a) cddp) + ('o, 'a) cddp" where
  "initialize_U preserve control_dim s =
     (if U_traj s = [] \<or> int (length (U_traj s)) \<noteq> horizon s then
        (case (if preserve then warm_resize (horizon s) (U_traj s)
               else cold_start (horizon s) control_dim) of
           Inl (e, v) \<Rightarrow> Inl (e, s\<lparr>U_traj := v\<rparr>)
         | Inr v \<Rightarrow> Inr (s\<lparr>U_traj := v\<rparr>))
      else Inr s)"

definition initializeProblemIfNecessary ::
  "('o, 'a) cddp \<Rightarrow> (error \<times> ('o, 'a) cddp) + ('o, 'a) cddp" where
  "initializeProblemIfNecessary s =
     (if initialized s then Inr s
      else case system s of
        None \<Rightarrow> Inl (RuntimeError ''Dynamical system must be set before solving.'', s)
      | Some sys \<Rightarrow>
         (case objective s of
            None \<Rightarrow> Inl (RuntimeError ''Objective function must be set before solving.'', s)
          | Some obj \<Rightarrow>
             (let state_dim = getStateDim sys;
                  control_dim = getControlDim sys;
                  preserve = preserve_trajectories sys s
              in case initialize_X preserve state_dim s of
                   Inl e \<Rightarrow> Inl e
                 | Inr s1 \<Rightarrow>
                    if X_traj s1 = [] then Inl (OutOfBounds, s1)
                    else
                      (case initialize_U preserve control_dim
                              (s1\<lparr>X_traj := (X_traj s1)[0 := initial_state s1]\<rparr>) of
                         Inl e \<Rightarrow> Inl e
                       | Inr s2 \<Rightarrow>
                           Inr (s2\<lparr>cost := Infinity,
                                    merit_function := Infinity,
                                    inf_pr := Infinity,
                                    inf_du := Infinity,
                                    inf_comp := Infinity,
                                    regularization_value := initial_value (regularization (options s2)),
                                    terminal_regularization :=
                                      initial_value (regularization (options s2)),
                                    initialized := True\<rparr>)))))"

text \<open>
  The state that \<^verbatim>\<open>initializeProblemIfNecessary\<close> leaves when no exception is thrown in
  a state that is not yet initialised (the lemma \<open>initialize_ok\<close> below).
\<close>

definition after_initialization :: "dynamical_system \<Rightarrow> ('o, 'a) cddp \<Rightarrow> ('o, 'a) cddp" where
  "after_initialization sys s =
     s\<lparr>X_traj :=
         (if X_traj s = [] \<or> int (length (X_traj s)) \<noteq> horizon s + 1
          then replicate (nat (horizon s + 1)) (Zero (getStateDim sys))
          else X_traj s)[0 := initial_state s],
       U_traj :=
         (if U_traj s = [] \<or> int (length (U_traj s)) \<noteq> horizon s
          then replicate (nat (horizon s)) (Zero (getControlDim sys))
          else U_traj s),
       cost := Infinity,
       merit_function := Infinity,
       inf_pr := Infinity,
       inf_du := Infinity,
       inf_comp := Infinity,
       regularization_value := initial_value (regularization (options s)),
       terminal_regularization := initial_value (regularization (options s)),
       initialized := True\<rparr>"

subsection \<open>Solving\<close>

text \<open>
  A \<^verbatim>\<open>CDDPSolution\<close> is a \<^verbatim>\<open>std::map<std::string, std::any>\<close>; the values that this
  file stores are tagged with their type.
\<close>

datatype sol_value =
    VString string | VInt int | VDouble real | VDoubles "real list" | VVectors "vector list"

type_synonym CDDPSolution = "string \<rightharpoonup> sol_value"

definition unknown_solver_solution :: "string \<Rightarrow> CDDPSolution" where
  "unknown_solver_solution solver_type =
     [''solver_name'' \<mapsto> VString solver_type,
      ''status_message'' \<mapsto>
         VString (''UnknownSolver - No solver registered for '' @ [CHR 0x27] @ solver_type
                  @ [CHR 0x27]),
      ''iterations_completed'' \<mapsto> VInt 0,
      ''solve_time_ms'' \<mapsto> VDouble 0,
      ''final_objective'' \<mapsto> VDouble 0,
      ''final_step_length'' \<mapsto> VDouble 1,
      ''time_points'' \<mapsto> VDoubles [],
      ''state_trajectory'' \<mapsto> VVectors [],
      ''control_trajectory'' \<mapsto> VVectors []]"

text \<open>
  \<^verbatim>\<open>solve(const std::string&)\<close>. The parameter \<open>strategy\<close> stands for the two calls
  \<^verbatim>\<open>solver_->initialize(*this); return solver_->solve(*this);\<close> of the algorithm that
  \<^verbatim>\<open>createSolver\<close> returned; the algorithms are defined in other files.
\<close>

type_synonym ('o, 'a) strategy =
  "'a algorithm \<Rightarrow> ('o, 'a) cddp \<Rightarrow> (error \<times> ('o, 'a) cddp) + (('o, 'a) cddp \<times> CDDPSolution)"

definition solve ::
  "'a registry \<Rightarrow> ('o, 'a) strategy \<Rightarrow> string \<Rightarrow> ('o, 'a) cddp \<Rightarrow>
   (error \<times> ('o, 'a) cddp) + (('o, 'a) cddp \<times> CDDPSolution)" where
  "solve reg strategy solver_type s =
     (case initializeProblemIfNecessary s of
        Inl e \<Rightarrow> Inl e
      | Inr s1 \<Rightarrow>
          (let s2 = s1\<lparr>solver := createSolver reg solver_type\<rparr>
           in case solver s2 of
                None \<Rightarrow> Inr (s2, unknown_solver_solution solver_type)
              | Some alg \<Rightarrow> strategy alg s2))"

text \<open>\<^verbatim>\<open>solve(SolverType)\<close>.\<close>

definition solve_type ::
  "'a registry \<Rightarrow> ('o, 'a) strategy \<Rightarrow> SolverType \<Rightarrow> ('o, 'a) cddp \<Rightarrow>
   (error \<times> ('o, 'a) cddp) + (('o, 'a) cddp \<times> CDDPSolution)" where
  "solve_type reg strategy solver_type s = solve reg strategy (solverTypeToString solver_type) s"

subsection \<open>Regularization and the tolerance test\<close>

definition increaseRegularization :: "('o, 'a) cddp \<Rightarrow> ('o, 'a) cddp" where
  "increaseRegularization s =
     s\<lparr>regularization_value :=
         std_min (regularization_value s * update_factor (regularization (options s)))
                 (max_value (regularization (options s)))\<rparr>"

definition decreaseRegularization :: "('o, 'a) cddp \<Rightarrow> ('o, 'a) cddp" where
  "decreaseRegularization s =
     s\<lparr>regularization_value :=
         std_max (regularization_value s / update_factor (regularization (options s)))
                 (min_value (regularization (options s)))\<rparr>"


definition increaseTerminalRegularization :: "('o, 'a) cddp \<Rightarrow> ('o, 'a) cddp" where
  "increaseTerminalRegularization s =
     s\<lparr>terminal_regularization :=
         std_min (terminal_regularization s * update_factor (regularization (options s)))
                 (max_value (regularization (options s)))\<rparr>"

definition decreaseTerminalRegularization :: "('o, 'a) cddp \<Rightarrow> ('o, 'a) cddp" where
  "decreaseTerminalRegularization s =
     s\<lparr>terminal_regularization :=
         std_max (terminal_regularization s / update_factor (regularization (options s)))
                 (min_value (regularization (options s)))\<rparr>"






subsection \<open>The specification's reading of a cold start\<close>


subsection \<open>Concrete inputs\<close>

text \<open>
  A small problem used to evaluate the definitions: one state and one control
  dimension, two steps, from \<open>x\<^sub>0 = (1)\<close> to \<open>x\<^sub>r\<^sub>e\<^sub>f = (3)\<close>. Objectives and external
  algorithms carry no data here.
\<close>

definition example_line_search :: line_search_options where
  "example_line_search =
     \<lparr>max_iterations = 10, initial_step_size = 1, min_step_size = 1 / 4,
      step_reduction_factor = 1 / 2\<rparr>"

definition example_regularization :: regularization_options where
  "example_regularization =
     \<lparr>initial_value = 1, update_factor = 10, max_value = 100, min_value = 1 / 100\<rparr>"

definition example_options :: cddp_options where
  "example_options =
     \<lparr>tolerance = 1 / 10 ^ 6, warm_start = False, verbose = False,
      line_search = example_line_search, regularization = example_regularization\<rparr>"

definition example_system :: dynamical_system where
  "example_system = \<lparr>getStateDim = 1, getControlDim = 1\<rparr>"

definition example_problem :: "int \<Rightarrow> cddp_options \<Rightarrow> (unit, unit) cddp" where
  "example_problem N opts =
     CDDP (\<lambda>v ob. ob) [1] [3] N (1 / 10) (Some example_system) (Some ()) opts"

definition example_cddp :: "(unit, unit) cddp" where
  "example_cddp = example_problem 2 example_options"

text \<open>A strategy that returns at once with an empty solution.\<close>

definition example_strategy :: "(unit, unit) strategy" where
  "example_strategy alg s = Inr (s, Map.empty)"



text \<open>A constraint with two rows.\<close>

definition example_constraint :: constraint where
  "example_constraint = \<lparr>getDualDim = 2\<rparr>"

text \<open>The example problem with a horizon of \<open>- 2\<close> and of \<open>0\<close>.\<close>

definition negative_horizon_cddp :: "(unit, unit) cddp" where
  "negative_horizon_cddp = example_problem (- 2) example_options"




text \<open>
  The example problem after \<open>example_constraint\<close> was added under one name once, and
  twice.
\<close>

definition once_added_cddp :: "(unit, unit) cddp" where
  "once_added_cddp =
     example_cddp\<lparr>path_constraint_set := [(''ControlConstraint'', example_constraint)],
                  total_dual_dim := 2, initialized := False\<rparr>"

definition twice_added_cddp :: "(unit, unit) cddp" where
  "twice_added_cddp =
     example_cddp\<lparr>path_constraint_set := [(''ControlConstraint'', example_constraint)],
                  total_dual_dim := 4, initialized := False\<rparr>"

text \<open>A registry where a factory was registered under the built-in name \<^verbatim>\<open>IPDDP\<close>.\<close>

definition shadowing_registry :: "unit registry" where
  "shadowing_registry = registerSolver ''IPDDP'' (\<lambda>u. Some (External ())) Map.empty"

section \<open>Properties\<close>

subsection \<open>The step-size ladder\<close>











subsection \<open>The regularization controller\<close>



lemma options_increaseRegularization [simp]:
  "options (increaseRegularization s) = options s"
  by (simp add: increaseRegularization_def)

lemma options_decreaseRegularization [simp]:
  "options (decreaseRegularization s) = options s"
  by (simp add: decreaseRegularization_def)




lemma options_increaseTerminalRegularization [simp]:
  "options (increaseTerminalRegularization s) = options s"
  by (simp add: increaseTerminalRegularization_def)

lemma options_decreaseTerminalRegularization [simp]:
  "options (decreaseTerminalRegularization s) = options s"
  by (simp add: decreaseTerminalRegularization_def)






subsection \<open>The tolerance test\<close>



subsection \<open>Initialisation\<close>

lemma zero_fill_length [simp]: "length (zero_fill k d v) = length v"
  by (induction k) simp_all

lemma zero_fill_nth:
  "i < length v \<Longrightarrow> zero_fill k d v ! i = (if i < k then Zero d else v ! i)"
  by (induction k) (auto simp: nth_list_update less_Suc_eq)

lemma zero_fill_replicate: "zero_fill n d (replicate n x) = replicate n (Zero d)"
  by (rule nth_equalityI) (simp_all add: zero_fill_nth)

lemma cold_start_ok:
  "0 \<le> n \<Longrightarrow> 0 \<le> d \<Longrightarrow> cold_start n d = Inr (replicate (nat n) (Zero d))"
  by (simp add: cold_start_def resize_def zero_fill_replicate)

lemma preserve_trajectories_lengths:
  "preserve_trajectories sys s \<Longrightarrow>
     X_traj s \<noteq> [] \<and> int (length (X_traj s)) = horizon s + 1 \<and>
     U_traj s \<noteq> [] \<and> int (length (U_traj s)) = horizon s"
  by (simp add: preserve_trajectories_def)

lemma initialize_X_ok:
  assumes "0 \<le> horizon s" "0 \<le> d"
  shows "initialize_X (preserve_trajectories sys s) d s =
         Inr (s\<lparr>X_traj := (if X_traj s = [] \<or> int (length (X_traj s)) \<noteq> horizon s + 1
                             then replicate (nat (horizon s + 1)) (Zero d) else X_traj s)\<rparr>)"
proof (cases "X_traj s = [] \<or> int (length (X_traj s)) \<noteq> horizon s + 1")
  case True
  then have "\<not> preserve_trajectories sys s"
    using preserve_trajectories_lengths[of sys s] by blast
  with True assms show ?thesis
    by (simp add: initialize_X_def cold_start_ok)
next
  case False
  then show ?thesis by (simp add: initialize_X_def)
qed

lemma initialize_U_ok:
  assumes "0 \<le> horizon s" "0 \<le> d" "U_traj s = U_traj s0" "horizon s = horizon s0"
    and "p = preserve_trajectories sys s0"
  shows "initialize_U p d s =
         Inr (s\<lparr>U_traj := (if U_traj s = [] \<or> int (length (U_traj s)) \<noteq> horizon s
                             then replicate (nat (horizon s)) (Zero d) else U_traj s)\<rparr>)"
proof (cases "U_traj s = [] \<or> int (length (U_traj s)) \<noteq> horizon s")
  case True
  with assms have "\<not> p"
    using preserve_trajectories_lengths[of sys s0] by auto
  with True assms show ?thesis
    by (simp add: initialize_U_def cold_start_ok)
next
  case False
  then show ?thesis by (simp add: initialize_U_def)
qed

lemma initialize_ok:
  assumes "\<not> initialized s" "system s = Some sys" "objective s = Some obj"
    and "0 \<le> horizon s" "0 \<le> getStateDim sys" "0 \<le> getControlDim sys"
  shows "initializeProblemIfNecessary s = Inr (after_initialization sys s)"
proof -
  define X1 where
    "X1 = (if X_traj s = [] \<or> int (length (X_traj s)) \<noteq> horizon s + 1
           then replicate (nat (horizon s + 1)) (Zero (getStateDim sys)) else X_traj s)"
  define U1 where
    "U1 = (if U_traj s = [] \<or> int (length (U_traj s)) \<noteq> horizon s
           then replicate (nat (horizon s)) (Zero (getControlDim sys)) else U_traj s)"
  define s1 where "s1 = s\<lparr>X_traj := X1[0 := initial_state s]\<rparr>"
  have X: "initialize_X (preserve_trajectories sys s) (getStateDim sys) s = Inr (s\<lparr>X_traj := X1\<rparr>)"
    using assms by (simp add: initialize_X_ok X1_def)
  have ne: "X1 \<noteq> []"
    using assms by (auto simp: X1_def)
  have "initialize_U (preserve_trajectories sys s) (getControlDim sys) s1 =
        Inr (s1\<lparr>U_traj := (if U_traj s1 = [] \<or> int (length (U_traj s1)) \<noteq> horizon s1
                              then replicate (nat (horizon s1)) (Zero (getControlDim sys))
                              else U_traj s1)\<rparr>)"
    using assms by (intro initialize_U_ok[where ?s0.0 = s]) (simp_all add: s1_def)
  then have U: "initialize_U (preserve_trajectories sys s) (getControlDim sys) s1 =
                Inr (s1\<lparr>U_traj := U1\<rparr>)"
    by (simp add: s1_def U1_def)
  have "initializeProblemIfNecessary s =
        Inr (s1\<lparr>U_traj := U1, cost := Infinity, merit_function := Infinity, inf_pr := Infinity,
                 inf_du := Infinity, inf_comp := Infinity,
                 regularization_value := initial_value (regularization (options s)),
                 terminal_regularization := initial_value (regularization (options s)),
                 initialized := True\<rparr>)"
    using assms ne U
    by (simp add: initializeProblemIfNecessary_def Let_def X) (simp add: s1_def)
  then show ?thesis
    by (simp add: after_initialization_def s1_def X1_def U1_def)
qed

lemma initialize_X_result:
  "initialize_X p d s = Inr s1 \<Longrightarrow> s1 = s\<lparr>X_traj := X_traj s1\<rparr>"
  "initialize_X p d s = Inl (e, s1) \<Longrightarrow> e = LengthError \<or> e = EigenNegativeSize"
  by (auto simp: initialize_X_def warm_resize_def cold_start_def
      split: if_splits sum.splits prod.splits)

lemma initialize_U_result:
  "initialize_U p d s = Inr s1 \<Longrightarrow> s1 = s\<lparr>U_traj := U_traj s1\<rparr>"
  "initialize_U p d s = Inl (e, s1) \<Longrightarrow> e = LengthError \<or> e = EigenNegativeSize"
  by (auto simp: initialize_U_def warm_resize_def cold_start_def
      split: if_splits sum.splits prod.splits)

lemma initializeProblemIfNecessary_unfold:
  assumes "\<not> initialized s" "system s = Some sys" "objective s = Some obj"
  shows "initializeProblemIfNecessary s =
         (case initialize_X (preserve_trajectories sys s) (getStateDim sys) s of
            Inl e \<Rightarrow> Inl e
          | Inr s1 \<Rightarrow>
              if X_traj s1 = [] then Inl (OutOfBounds, s1)
              else
                (case initialize_U (preserve_trajectories sys s) (getControlDim sys)
                        (s1\<lparr>X_traj := (X_traj s1)[0 := initial_state s1]\<rparr>) of
                   Inl e \<Rightarrow> Inl e
                 | Inr s2 \<Rightarrow>
                     Inr (s2\<lparr>cost := Infinity, merit_function := Infinity, inf_pr := Infinity,
                              inf_du := Infinity, inf_comp := Infinity,
                              regularization_value := initial_value (regularization (options s2)),
                              terminal_regularization :=
                                initial_value (regularization (options s2)),
                              initialized := True\<rparr>)))"
  using assms by (simp add: initializeProblemIfNecessary_def Let_def)

lemma initialize_needs_collaborators:
  assumes "\<not> initialized s" "initializeProblemIfNecessary s = Inr s'"
  shows "\<exists>sys obj. system s = Some sys \<and> objective s = Some obj"
proof (cases "system s")
  case None
  with assms show ?thesis by (simp add: initializeProblemIfNecessary_def)
next
  case (Some sys)
  with assms show ?thesis
    by (cases "objective s") (simp_all add: initializeProblemIfNecessary_def)
qed

lemma initialize_returns:
  assumes ni: "\<not> initialized s" and ret: "initializeProblemIfNecessary s = Inr s'"
  shows "initial_state s' = initial_state s \<and> X_traj s' \<noteq> [] \<and> X_traj s' ! 0 = initial_state s"
proof -
  from initialize_needs_collaborators[OF assms] obtain sys obj where
    so: "system s = Some sys" "objective s = Some obj" by blast
  note unf = initializeProblemIfNecessary_unfold[OF ni so]
  show ?thesis
  proof (cases "initialize_X (preserve_trajectories sys s) (getStateDim sys) s")
    case (Inl e)
    with ret unf show ?thesis by simp
  next
    case (Inr s1)
    note s1 = initialize_X_result(1)[OF Inr]
    show ?thesis
    proof (cases "X_traj s1 = []")
      case True
      with ret unf Inr show ?thesis by simp
    next
      case ne: False
      show ?thesis
      proof (cases "initialize_U (preserve_trajectories sys s) (getControlDim sys)
                      (s1\<lparr>X_traj := (X_traj s1)[0 := initial_state s1]\<rparr>)")
        case (Inl e)
        with ret unf Inr ne show ?thesis by simp
      next
        case s2: (Inr s2)
        note u = initialize_U_result(1)[OF s2]
        from ret unf Inr ne s2 have
          s': "s' = s2\<lparr>cost := Infinity, merit_function := Infinity, inf_pr := Infinity,
                 inf_du := Infinity, inf_comp := Infinity,
                 regularization_value := initial_value (regularization (options s2)),
                 terminal_regularization := initial_value (regularization (options s2)),
                 initialized := True\<rparr>"
          by simp
        have a: "initial_state s2 = initial_state s1" "X_traj s2 = (X_traj s1)[0 := initial_state s1]"
          by (subst u, simp)+
        have b: "initial_state s1 = initial_state s"
          by (subst s1) simp
        from ne a b show ?thesis
          by (cases "X_traj s1") (simp_all add: s')
      qed
    qed
  qed
qed




lemma unknown_name_not_created:
  assumes "reg solver_type = None" "solver_type \<notin> set builtin_names"
  shows "createSolver reg solver_type = None"
  using assms by (simp add: createSolver_def builtin_names_def)

lemma solve_unknown:
  assumes "initializeProblemIfNecessary s = Inr s1" "createSolver reg solver_type = None"
  shows "solve reg strategy solver_type s =
         Inr (s1\<lparr>solver := None\<rparr>, unknown_solver_solution solver_type)"
  using assms by (simp add: solve_def)

lemma example_problem_fields:
  "initialized (example_problem N opts) = False"
  "system (example_problem N opts) = Some example_system"
  "objective (example_problem N opts) = Some ()"
  "horizon (example_problem N opts) = N"
  "initial_state (example_problem N opts) = [1]"
  "reference_state (example_problem N opts) = [3]"
  "X_traj (example_problem N opts) = []"
  "U_traj (example_problem N opts) = []"
  "options (example_problem N opts) = opts"
  by (simp_all add: example_problem_def CDDP_def)

lemma example_cddp_fields:
  "initialized example_cddp = False"
  "system example_cddp = Some example_system"
  "objective example_cddp = Some ()"
  "horizon example_cddp = 2"
  "initial_state example_cddp = [1]"
  "reference_state example_cddp = [3]"
  "X_traj example_cddp = []"
  "U_traj example_cddp = []"
  by (simp_all add: example_cddp_def example_problem_fields)







subsection \<open>Unknown solver names\<close>

lemma unknown_solver_solution_entries:
  "unknown_solver_solution n ''status_message'' =
     Some (VString (''UnknownSolver - No solver registered for '' @ [CHR 0x27] @ n @ [CHR 0x27]))"
  "unknown_solver_solution n ''state_trajectory'' = Some (VVectors [])"
  "unknown_solver_solution n ''control_trajectory'' = Some (VVectors [])"
  "unknown_solver_solution n ''time_points'' = Some (VDoubles [])"
  "unknown_solver_solution n ''iterations_completed'' = Some (VInt 0)"
  "unknown_solver_solution n ''solver_name'' = Some (VString n)"
  by (simp_all add: unknown_solver_solution_def)

lemma status_contains_UnknownSolver:
  "sublist ''UnknownSolver''
     (''UnknownSolver - No solver registered for '' @ [CHR 0x27] @ n @ [CHR 0x27])"
proof -
  have "prefix ''UnknownSolver''
          (''UnknownSolver'' @ ('' - No solver registered for '' @ [CHR 0x27] @ n @ [CHR 0x27]))"
    by (rule prefixI) simp
  then show ?thesis by (simp add: prefix_imp_sublist)
qed

text \<open>
  Claim C1, as amended. For a solver name that is neither a built-in name nor in the
  registry, and for a configured problem (system and objective set) that is already
  initialised or has a non-negative horizon and non-negative system dimensions,
  \<^verbatim>\<open>solve(name)\<close> does not throw: it returns a solution whose \<^verbatim>\<open>status_message\<close>
  contains \<^verbatim>\<open>UnknownSolver\<close>, whose \<^verbatim>\<open>state_trajectory\<close>, \<^verbatim>\<open>control_trajectory\<close> and
  \<^verbatim>\<open>time_points\<close> are empty and whose \<^verbatim>\<open>iterations_completed\<close> is \<open>0\<close>.
\<close>

theorem unknown_solver:
  assumes "system s = Some sys" "objective s = Some obj"
    and "reg solver_type = None" "solver_type \<notin> set builtin_names"
    and "initialized s \<or> 0 \<le> horizon s \<and> 0 \<le> getStateDim sys \<and> 0 \<le> getControlDim sys"
  shows "\<exists>s' sol msg.
           solve reg strategy solver_type s = Inr (s', sol) \<and>
           sol ''status_message'' = Some (VString msg) \<and> sublist ''UnknownSolver'' msg \<and>
           sol ''state_trajectory'' = Some (VVectors []) \<and>
           sol ''control_trajectory'' = Some (VVectors []) \<and>
           sol ''time_points'' = Some (VDoubles []) \<and>
           sol ''iterations_completed'' = Some (VInt 0)"
proof -
  have "\<exists>s1. initializeProblemIfNecessary s = Inr s1"
  proof (cases "initialized s")
    case True
    then show ?thesis by (simp add: initializeProblemIfNecessary_def)
  next
    case False
    with assms show ?thesis by (simp add: initialize_ok)
  qed
  then obtain s1 where "initializeProblemIfNecessary s = Inr s1" ..
  moreover from assms have "createSolver reg solver_type = None"
    by (simp add: unknown_name_not_created)
  ultimately have "solve reg strategy solver_type s =
      Inr (s1\<lparr>solver := None\<rparr>, unknown_solver_solution solver_type)"
    by (rule solve_unknown)
  then show ?thesis
    using unknown_solver_solution_entries[of solver_type] status_contains_UnknownSolver[of solver_type]
    by blast
qed

theorem unknown_solver_witness:
  "system example_cddp = Some example_system \<and> objective example_cddp = Some () \<and>
   (Map.empty :: unit registry) ''NoSuchSolver'' = None \<and>
   ''NoSuchSolver'' \<notin> set builtin_names \<and>
   0 \<le> horizon example_cddp \<and> 0 \<le> getStateDim example_system \<and>
   0 \<le> getControlDim example_system \<and>
   (\<exists>s' sol msg.
      solve Map.empty example_strategy ''NoSuchSolver'' example_cddp = Inr (s', sol) \<and>
      sol ''status_message'' = Some (VString msg) \<and> sublist ''UnknownSolver'' msg \<and>
      sol ''state_trajectory'' = Some (VVectors []) \<and>
      sol ''control_trajectory'' = Some (VVectors []) \<and>
      sol ''time_points'' = Some (VDoubles []) \<and>
      sol ''iterations_completed'' = Some (VInt 0))"
proof -
  have pre: "system example_cddp = Some example_system" "objective example_cddp = Some ()"
    "(Map.empty :: unit registry) ''NoSuchSolver'' = None"
    "''NoSuchSolver'' \<notin> set builtin_names"
    "initialized example_cddp \<or> 0 \<le> horizon example_cddp \<and> 0 \<le> getStateDim example_system \<and>
       0 \<le> getControlDim example_system"
    by (simp_all add: example_cddp_def example_problem_fields example_system_def builtin_names_def)
  have more: "0 \<le> horizon example_cddp \<and> 0 \<le> getStateDim example_system \<and>
              0 \<le> getControlDim example_system"
    by (simp add: example_cddp_def example_problem_fields example_system_def)
  from unknown_solver[OF pre, of example_strategy] pre(1-4) more show ?thesis
    by blast
qed

text \<open>
  With a horizon of \<open>- 2\<close> the resize of the state trajectory throws before the solver
  name is looked at.
\<close>

theorem unknown_solver_negative_horizon:
  "system negative_horizon_cddp = Some example_system \<and>
   objective negative_horizon_cddp = Some () \<and>
   (Map.empty :: unit registry) ''NoSuchSolver'' = None \<and>
   ''NoSuchSolver'' \<notin> set builtin_names \<and>
   horizon negative_horizon_cddp = - 2 \<and>
   solve Map.empty example_strategy ''NoSuchSolver'' negative_horizon_cddp =
     Inl (LengthError, negative_horizon_cddp)"
proof -
  have "initialize_X (preserve_trajectories example_system negative_horizon_cddp)
          (getStateDim example_system) negative_horizon_cddp =
        Inl (LengthError, negative_horizon_cddp\<lparr>X_traj := []\<rparr>)"
    by (simp add: initialize_X_def negative_horizon_cddp_def example_problem_fields
        preserve_trajectories_def cold_start_def)
  moreover have "negative_horizon_cddp\<lparr>X_traj := []\<rparr> = negative_horizon_cddp"
    by (simp add: negative_horizon_cddp_def example_problem_def CDDP_def)
  ultimately have "initializeProblemIfNecessary negative_horizon_cddp =
      Inl (LengthError, negative_horizon_cddp)"
    by (simp add: initializeProblemIfNecessary_unfold[where sys = example_system and obj = "()"]
        negative_horizon_cddp_def example_problem_fields)
  then have "solve Map.empty example_strategy ''NoSuchSolver'' negative_horizon_cddp =
     Inl (LengthError, negative_horizon_cddp)"
    by (simp add: solve_def)
  then show ?thesis
    by (simp add: negative_horizon_cddp_def example_problem_fields builtin_names_def)
qed

subsection \<open>Installing an initial trajectory\<close>

text \<open>
  Claim C8. When the length of \<open>X\<close> differs from \<open>horizon + 1\<close> or the length of \<open>U\<close>
  from \<open>horizon\<close>, \<^verbatim>\<open>setInitialTrajectory(X, U)\<close> writes its warning and returns
  normally, with \<open>X\<close> and \<open>U\<close> installed as the current trajectory (the model has no
  exception branch: the function has no \<^verbatim>\<open>throw\<close>).
\<close>

theorem mismatched_trajectory_installed:
  assumes "int (length X) \<noteq> horizon s + 1 \<or> int (length U) \<noteq> horizon s"
  shows "setInitialTrajectory X U s =
           ([trajectory_warning],
            s\<lparr>X_traj := X, U_traj := U,
              initial_state := (if X = [] then initial_state s else X ! 0)\<rparr>)"
  using assms by (cases X) (auto simp: setInitialTrajectory_def)

theorem mismatched_trajectory_installed_witness:
  "int (length [[5::real]]) \<noteq> horizon example_cddp + 1 \<and>
   setInitialTrajectory [[5]] [] example_cddp =
     ([trajectory_warning],
      example_cddp\<lparr>X_traj := [[5]], U_traj := [], initial_state := [5]\<rparr>)"
proof -
  have pre: "int (length [[5::real]]) \<noteq> horizon example_cddp + 1"
    by (simp add: example_cddp_fields)
  then have "int (length [[5::real]]) \<noteq> horizon example_cddp + 1 \<or>
             int (length ([] :: vector list)) \<noteq> horizon example_cddp" ..
  from mismatched_trajectory_installed[OF this] pre show ?thesis
    by simp
qed

text \<open>
  Claim C9. \<^verbatim>\<open>setInitialTrajectory(X, U)\<close> with a non-empty \<open>X\<close> overwrites the
  stored initial state with \<open>X[0]\<close>, whatever the length of \<open>X\<close> and whatever initial
  state \<open>s\<close> held before. Every initialisation that then returns starts the state
  trajectory at \<open>X[0]\<close>, and on a configured problem it does return.
\<close>

theorem initial_trajectory_sets_initial_state:
  assumes "X \<noteq> []"
  shows "initial_state (snd (setInitialTrajectory X U s)) = X ! 0 \<and>
         (\<forall>s'. initializeProblemIfNecessary (snd (setInitialTrajectory X U s)) = Inr s' \<longrightarrow>
            initial_state s' = X ! 0 \<and> X_traj s' \<noteq> [] \<and> X_traj s' ! 0 = X ! 0) \<and>
         (initialized s \<or>
          (\<exists>sys obj. system s = Some sys \<and> objective s = Some obj \<and> 0 \<le> horizon s \<and>
             0 \<le> getStateDim sys \<and> 0 \<le> getControlDim sys) \<longrightarrow>
          (\<exists>s'. initializeProblemIfNecessary (snd (setInitialTrajectory X U s)) = Inr s'))"
proof -
  define t where "t = snd (setInitialTrajectory X U s)"
  from assms have t: "t = s\<lparr>X_traj := X, U_traj := U, initial_state := X ! 0\<rparr>"
    by (cases X) (simp_all add: t_def setInitialTrajectory_def Let_def)
  have a: "initial_state t = X ! 0" by (simp add: t)
  have b: "initial_state s' = X ! 0 \<and> X_traj s' \<noteq> [] \<and> X_traj s' ! 0 = X ! 0"
    if ret: "initializeProblemIfNecessary t = Inr s'" for s'
  proof (cases "initialized t")
    case True
    with ret have "s' = t" by (simp add: initializeProblemIfNecessary_def)
    with assms show ?thesis by (simp add: t)
  next
    case False
    from initialize_returns[OF False ret] a show ?thesis by simp
  qed
  have c: "\<exists>s'. initializeProblemIfNecessary t = Inr s'"
    if h: "initialized s \<or>
          (\<exists>sys obj. system s = Some sys \<and> objective s = Some obj \<and> 0 \<le> horizon s \<and>
             0 \<le> getStateDim sys \<and> 0 \<le> getControlDim sys)"
  proof (cases "initialized s")
    case True
    then have "initialized t" by (simp add: t)
    then show ?thesis by (simp add: initializeProblemIfNecessary_def)
  next
    case False
    with h obtain sys obj where "system s = Some sys" "objective s = Some obj" "0 \<le> horizon s"
      "0 \<le> getStateDim sys" "0 \<le> getControlDim sys" by blast
    with False have "initializeProblemIfNecessary t = Inr (after_initialization sys t)"
      by (intro initialize_ok) (simp_all add: t)
    then show ?thesis ..
  qed
  from a b c show ?thesis
    unfolding t_def by blast
qed

theorem initial_trajectory_sets_initial_state_witness:
  "[[5::real]] \<noteq> [] \<and> initial_state example_cddp = [1] \<and>
   initial_state (snd (setInitialTrajectory [[5]] [] example_cddp)) = [5] \<and>
   (\<exists>s'. initializeProblemIfNecessary (snd (setInitialTrajectory [[5]] [] example_cddp)) = Inr s' \<and>
         initial_state s' = [5] \<and> X_traj s' ! 0 = [5])"
proof -
  have ne: "[[5::real]] \<noteq> []" by simp
  have cfg: "initialized example_cddp \<or>
          (\<exists>sys obj. system example_cddp = Some sys \<and> objective example_cddp = Some obj \<and>
             0 \<le> horizon example_cddp \<and> 0 \<le> getStateDim sys \<and> 0 \<le> getControlDim sys)"
    by (simp add: example_cddp_fields example_system_def)
  from initial_trajectory_sets_initial_state[OF ne, of "[]" example_cddp] cfg
  have "initial_state (snd (setInitialTrajectory [[5]] [] example_cddp)) = [[5]] ! 0 \<and>
        (\<exists>s'. initializeProblemIfNecessary (snd (setInitialTrajectory [[5]] [] example_cddp)) = Inr s' \<and>
         initial_state s' = [[5]] ! 0 \<and> X_traj s' ! 0 = [[5]] ! 0)"
    by blast
  then show ?thesis
    by (simp add: example_cddp_fields)
qed

subsection \<open>The constraint store\<close>

text \<open>
  Adding a constraint under a name that is not in use, and removing one from a set with
  distinct names, keep \<^verbatim>\<open>total_dual_dim_\<close> equal to the sum of the dual dimensions held.
\<close>

lemma sum_list_update_fresh:
  "map_of al k = None \<Longrightarrow>
   sum_list (map (\<lambda>(n, c). getDualDim c) (AList.update k v al)) =
   sum_list (map (\<lambda>(n, c). getDualDim c) al) + getDualDim v"
  by (induction al) (auto split: if_splits)

lemma sum_list_delete_present:
  "distinct (map fst al) \<Longrightarrow> map_of al k = Some v \<Longrightarrow>
   sum_list (map (\<lambda>(n, c). getDualDim c) (AList.delete k al)) =
   sum_list (map (\<lambda>(n, c). getDualDim c) al) - getDualDim v"
proof (induction al)
  case Nil
  then show ?case by simp
next
  case (Cons p al)
  obtain n c where p: "p = (n, c)" by (cases p)
  show ?case
  proof (cases "n = k")
    case True
    with Cons.prems p have "c = v" and "k \<notin> fst ` set al" by auto
    then have "AList.delete k al = al"
      by (simp add: delete_id image_iff)
    with True p \<open>c = v\<close> show ?thesis by simp
  next
    case False
    with Cons p show ?thesis by simp
  qed
qed

lemma add_fresh_name_keeps_total:
  assumes "map_of (path_constraint_set s) constraint_name = None"
    and "total_dual_dim s = held_dual_dim s"
    and "addPathConstraint constraint_name (Some con) s = Inr s'"
  shows "total_dual_dim s' = held_dual_dim s' \<and> total_dual_dim s' = total_dual_dim s + getDualDim con \<and>
         \<not> initialized s'"
  using assms
  by (auto simp: addPathConstraint_def held_dual_dim_def sum_list_update_fresh)

lemma remove_keeps_total:
  assumes "distinct (map fst (path_constraint_set s))"
    and "total_dual_dim s = held_dual_dim s"
  shows "(case map_of (path_constraint_set s) constraint_name of
            Some con \<Rightarrow>
              fst (removePathConstraint constraint_name s) \<and>
              total_dual_dim (snd (removePathConstraint constraint_name s)) =
                total_dual_dim s - getDualDim con \<and>
              total_dual_dim (snd (removePathConstraint constraint_name s)) =
                held_dual_dim (snd (removePathConstraint constraint_name s)) \<and>
              \<not> initialized (snd (removePathConstraint constraint_name s))
          | None \<Rightarrow> removePathConstraint constraint_name s = (False, s))"
  using assms
  by (auto simp: removePathConstraint_def held_dual_dim_def sum_list_delete_present
      split: option.splits)

text \<open>
  Claim C6 at a name that is already in use. \<^verbatim>\<open>addPathConstraint\<close> replaces the
  constraint stored under the name and still adds the new dual dimension to
  \<^verbatim>\<open>total_dual_dim_\<close>: after adding a constraint of dual dimension \<open>2\<close> twice under
  one name, the set holds one constraint of dual dimension \<open>2\<close> and \<^verbatim>\<open>total_dual_dim_\<close>
  is \<open>4\<close>.
\<close>

theorem duplicate_name_breaks_total_dual_dim:
  "addPathConstraint ''ControlConstraint'' (Some example_constraint) example_cddp =
     Inr once_added_cddp \<and>
   addPathConstraint ''ControlConstraint'' (Some example_constraint) once_added_cddp =
     Inr twice_added_cddp \<and>
   path_constraint_set twice_added_cddp = [(''ControlConstraint'', example_constraint)] \<and>
   terminal_constraint_set twice_added_cddp = [] \<and>
   total_dual_dim twice_added_cddp = 4 \<and>
   held_dual_dim twice_added_cddp = 2"
proof -
  have e: "path_constraint_set example_cddp = []" "terminal_constraint_set example_cddp = []"
    "total_dual_dim example_cddp = 0"
    by (simp_all add: example_cddp_def example_problem_def CDDP_def)
  have 1: "addPathConstraint ''ControlConstraint'' (Some example_constraint) example_cddp =
           Inr once_added_cddp"
    by (simp add: addPathConstraint_def once_added_cddp_def e example_constraint_def)
  have 2: "addPathConstraint ''ControlConstraint'' (Some example_constraint) once_added_cddp =
           Inr twice_added_cddp"
    by (simp add: addPathConstraint_def once_added_cddp_def twice_added_cddp_def
        example_constraint_def)
  have 3: "held_dual_dim twice_added_cddp = 2"
    by (simp add: held_dual_dim_def twice_added_cddp_def e example_constraint_def)
  from 1 2 3 show ?thesis
    by (simp add: twice_added_cddp_def e)
qed

subsection \<open>The solver registry\<close>

text \<open>
  Claim C10. \<^verbatim>\<open>createSolver\<close> looks a name up in the registry before it compares it
  with the built-in names: a registered factory is the one called, also under a
  built-in name, by \<^verbatim>\<open>createSolver\<close> and by \<^verbatim>\<open>solve\<close>, and registering other names
  afterwards does not change that. Registering a name again replaces the factory.
  \<^verbatim>\<open>isSolverRegistered\<close> holds exactly for the names in the registry, so it is false for
  a built-in name that was not registered, although \<^verbatim>\<open>createSolver\<close> builds a solver
  for it.
\<close>

theorem registry_shadows_builtin:
  "(reg solver_name = Some factory \<longrightarrow> createSolver reg solver_name = factory ()) \<and>
   createSolver (registerSolver solver_name factory reg) solver_name = factory () \<and>
   solve (registerSolver solver_name factory reg) strategy solver_name s =
     (case initializeProblemIfNecessary s of
        Inl e \<Rightarrow> Inl e
      | Inr s1 \<Rightarrow>
          (case factory () of
             None \<Rightarrow> Inr (s1\<lparr>solver := None\<rparr>, unknown_solver_solution solver_name)
           | Some alg \<Rightarrow> strategy alg (s1\<lparr>solver := Some alg\<rparr>))) \<and>
   (other \<noteq> solver_name \<longrightarrow>
      createSolver (registerSolver other factory2 (registerSolver solver_name factory reg)) solver_name
        = factory ()) \<and>
   registerSolver solver_name factory2 (registerSolver solver_name factory reg) =
     registerSolver solver_name factory2 reg \<and>
   isSolverRegistered solver_name reg = (solver_name \<in> dom reg) \<and>
   (solver_name \<in> set builtin_names \<and> reg solver_name = None \<longrightarrow>
      \<not> isSolverRegistered solver_name reg \<and> createSolver reg solver_name \<noteq> None)"
proof -
  have 1: "reg solver_name = Some factory \<longrightarrow> createSolver reg solver_name = factory ()"
    by (simp add: createSolver_def)
  have 2: "createSolver (registerSolver solver_name factory reg) solver_name = factory ()"
    by (simp add: createSolver_def registerSolver_def)
  have 3: "solve (registerSolver solver_name factory reg) strategy solver_name s =
     (case initializeProblemIfNecessary s of
        Inl e \<Rightarrow> Inl e
      | Inr s1 \<Rightarrow>
          (case factory () of
             None \<Rightarrow> Inr (s1\<lparr>solver := None\<rparr>, unknown_solver_solution solver_name)
           | Some alg \<Rightarrow> strategy alg (s1\<lparr>solver := Some alg\<rparr>)))"
    by (simp add: solve_def 2 Let_def split: sum.splits option.splits)
  have 4: "other \<noteq> solver_name \<longrightarrow>
      createSolver (registerSolver other factory2 (registerSolver solver_name factory reg)) solver_name
        = factory ()"
    by (simp add: createSolver_def registerSolver_def)
  have 5: "registerSolver solver_name factory2 (registerSolver solver_name factory reg) =
     registerSolver solver_name factory2 reg"
    by (simp add: registerSolver_def)
  have 6: "isSolverRegistered solver_name reg = (solver_name \<in> dom reg)"
    by (auto simp: isSolverRegistered_def)
  have 7: "solver_name \<in> set builtin_names \<and> reg solver_name = None \<longrightarrow>
      \<not> isSolverRegistered solver_name reg \<and> createSolver reg solver_name \<noteq> None"
    by (auto simp: isSolverRegistered_def createSolver_def builtin_names_def)
  from 1 2 3 4 5 6 7 show ?thesis by blast
qed

theorem registry_shadows_builtin_witness:
  "''IPDDP'' \<in> set builtin_names \<and>
   createSolver (Map.empty :: unit registry) ''IPDDP'' = Some IPDDPSolver \<and>
   shadowing_registry ''IPDDP'' = Some (\<lambda>u. Some (External ())) \<and>
   createSolver shadowing_registry ''IPDDP'' = Some (External ()) \<and>
   ''CLDDP'' \<in> set builtin_names \<and> shadowing_registry ''CLDDP'' = None \<and>
   isSolverRegistered ''IPDDP'' shadowing_registry \<and>
   \<not> isSolverRegistered ''CLDDP'' shadowing_registry"
proof -
  let ?f = "\<lambda>u::unit. Some (External () :: unit algorithm)"
  have r1: "shadowing_registry ''IPDDP'' = Some ?f"
    by (simp add: shadowing_registry_def registerSolver_def)
  have r2: "''CLDDP'' \<in> set builtin_names \<and> shadowing_registry ''CLDDP'' = None"
    by (simp add: shadowing_registry_def registerSolver_def builtin_names_def)
  have a: "createSolver shadowing_registry ''IPDDP'' = Some (External ())"
    using registry_shadows_builtin[of shadowing_registry "''IPDDP''" ?f, THEN conjunct1, THEN mp, OF r1]
    by simp
  from registry_shadows_builtin[of shadowing_registry "''CLDDP''"] r2
  have b: "\<not> isSolverRegistered ''CLDDP'' shadowing_registry"
    by blast
  have c: "isSolverRegistered ''IPDDP'' shadowing_registry"
    by (simp add: isSolverRegistered_def r1)
  have d: "''IPDDP'' \<in> set builtin_names \<and>
           createSolver (Map.empty :: unit registry) ''IPDDP'' = Some IPDDPSolver"
    by (simp add: builtin_names_def createSolver_def)
  from a b c d r1 r2 show ?thesis by blast
qed

end
